theory Spec2Isabelle
  imports Main "HOL-Library.AList"
begin

unbundle bit_operations_syntax

section \<open>Values exchanged between the services\<close>

text \<open>
  The four services talk JSON over HTTP. A JSON document is modelled by its value; a
  Python \<open>dict\<close> is an association list in insertion order whose keys are distinct.
  Floating point numbers do not occur in this program and are left out.
\<close>

datatype json =
    JNull
  | JBool bool
  | JInt int
  | JStr string
  | JArr "json list"
  | JObj "(string \<times> json) list"

text \<open>Exceptions that the orchestrator's code can meet, as values.\<close>

datatype exn =
    KeyError string
  | TypeError
  | AttributeError
  | JSONDecodeError
  | TransportError string

subsection \<open>Rendering: \<open>str(int)\<close> and \<open>json.dumps\<close>\<close>

definition digit_char :: "nat \<Rightarrow> char" where
  "digit_char n = ''0123456789abcdef'' ! (n mod 16)"

function show_nat :: "nat \<Rightarrow> string" where
  "show_nat n = (if n < 10 then [digit_char n] else show_nat (n div 10) @ [digit_char (n mod 10)])"
  by pat_completeness auto
termination
  by (relation "measure id") auto

declare show_nat.simps [simp del]

definition show_int :: "int \<Rightarrow> string" where
  "show_int i = (if i < 0 then CHR ''-'' # show_nat (nat (- i)) else show_nat (nat i))"

text \<open>
  String escaping of \<open>json.dumps(..., ensure_ascii=False)\<close>, which is how Starlette's
  \<open>JSONResponse\<close> renders a body: the quote, the backslash and the control characters
  below 0x20 are escaped, everything else is copied.
\<close>

definition escape_char :: "char \<Rightarrow> string" where
  "escape_char c =
     (if c = CHR 0x22 then [CHR 0x5C, CHR 0x22]
      else if c = CHR 0x5C then [CHR 0x5C, CHR 0x5C]
      else if c = CHR 0x0A then [CHR 0x5C, CHR ''n'']
      else if c = CHR 0x0D then [CHR 0x5C, CHR ''r'']
      else if c = CHR 0x09 then [CHR 0x5C, CHR ''t'']
      else if c = CHR 0x08 then [CHR 0x5C, CHR ''b'']
      else if c = CHR 0x0C then [CHR 0x5C, CHR ''f'']
      else if (of_char c :: nat) < 32
        then [CHR 0x5C, CHR ''u'', CHR ''0'', CHR ''0'',
              digit_char ((of_char c :: nat) div 16), digit_char ((of_char c :: nat) mod 16)]
      else [c])"

definition quote :: "string \<Rightarrow> string" where
  "quote s = CHR 0x22 # concat (map escape_char s) @ [CHR 0x22]"

fun join :: "string \<Rightarrow> string list \<Rightarrow> string" where
  "join sep [] = []"
| "join sep [x] = x"
| "join sep (x # y # ys) = x @ sep @ join sep (y # ys)"

text \<open>Compact separators \<open>(",", ":")\<close>, as \<open>JSONResponse.render\<close> passes them.\<close>

fun dumps :: "json \<Rightarrow> string"
  and dumps_items :: "json list \<Rightarrow> string list"
  and dumps_members :: "(string \<times> json) list \<Rightarrow> string list" where
  "dumps JNull = ''null''"
| "dumps (JBool b) = (if b then ''true'' else ''false'')"
| "dumps (JInt i) = show_int i"
| "dumps (JStr s) = quote s"
| "dumps (JArr xs) = ''['' @ join '','' (dumps_items xs) @ '']''"
| "dumps (JObj kvs) = ''{'' @ join '','' (dumps_members kvs) @ ''}''"
| "dumps_items [] = []"
| "dumps_items (x # xs) = dumps x # dumps_items xs"
| "dumps_members [] = []"
| "dumps_members (kv # kvs) = (quote (fst kv) @ '':'' @ dumps (snd kv)) # dumps_members kvs"

subsection \<open>HTTP requests and responses\<close>

datatype http_method = GET | POST

record request =
  req_method :: http_method
  url :: string
  headers :: "(string \<times> string) list"
  json_body :: "json option"

text \<open>
  A response carries its status code, its body text (\<open>r.text\<close>) and the value that
  \<open>r.json()\<close> parses the text to; \<open>None\<close> stands for a body that is not JSON, on
  which \<open>r.json()\<close> raises. Parsing itself is not modelled: a response built by
  \<open>JSONResponse\<close> carries the value it was rendered from.
\<close>

record response =
  status_code :: int
  body_text :: string
  body_json :: "json option"

definition JSONResponse :: "int \<Rightarrow> json \<Rightarrow> response" where
  "JSONResponse code content =
     \<lparr>status_code = code, body_text = dumps content, body_json = Some content\<rparr>"

text \<open>
  \<open>raise HTTPException(status_code=c, detail=d)\<close> inside a FastAPI handler: FastAPI's
  default exception handler answers with \<open>JSONResponse({"detail": d}, status_code=c)\<close>,
  so the detail sits under the top-level key \<open>detail\<close>.
\<close>

definition HTTPException :: "int \<Rightarrow> json \<Rightarrow> response" where
  "HTTPException code detail = JSONResponse code (JObj [(''detail'', detail)])"

section \<open>Marketplace mock (the resource server)\<close>

type_synonym detail_store = "(string \<times> json) list"

definition DETAIL :: detail_store where
  "DETAIL = [(''1'', JObj [(''id'', JStr ''1''), (''name'', JStr ''ACME Corp''),
                            (''description'', JStr ''A company'')])]"

text \<open>
  \<open>get_detail(id, x_payment_token)\<close>: \<open>not x_payment_token\<close> holds for a missing header
  and for an empty one. \<open>DETAIL.get(id)\<close> is \<open>None\<close> for an unknown id, which FastAPI
  renders as \<open>null\<close> with status 200. The store \<open>DETAIL\<close> is passed in as \<open>D\<close>.
\<close>

definition get_detail :: "detail_store \<Rightarrow> string \<Rightarrow> string option \<Rightarrow> response" where
  "get_detail D rid x_payment_token =
     (if x_payment_token = None \<or> x_payment_token = Some []
      then HTTPException 402 (JObj [(''price'', JInt 10)])
      else JSONResponse 200 (case map_of D rid of None \<Rightarrow> JNull | Some d \<Rightarrow> d))"

record PayRequest =
  tokenId :: string
  amount :: int

definition pay :: "detail_store \<Rightarrow> PayRequest \<Rightarrow> response \<times> detail_store" where
  "pay D req = (JSONResponse 200 (JObj [(''success'', JBool True)]), D)"


text \<open>
  \<open>get_basic(keyword)\<close>: the rows whose name contains the keyword, both lower-cased
  (\<open>lower\<close> maps the ASCII capitals only). An entry that is not a dict, has no
  \<open>name\<close> or whose name is not a string makes the handler raise.
\<close>

definition lower :: "string \<Rightarrow> string" where
  "lower s =
     map (\<lambda>c. if (65::nat) \<le> of_char c \<and> (of_char c :: nat) \<le> 90
              then char_of ((of_char c :: nat) + 32) else c) s"

fun contains :: "string \<Rightarrow> string \<Rightarrow> bool" where
  "contains [] needle = (needle = [])"
| "contains (c # cs) needle = (take (length needle) (c # cs) = needle \<or> contains cs needle)"

fun basic_rows :: "string \<Rightarrow> detail_store \<Rightarrow> exn + json list" where
  "basic_rows keyword [] = Inr []"
| "basic_rows keyword ((cid, info) # rest) =
     (case info of
        JObj kvs \<Rightarrow>
          (case map_of kvs ''name'' of
             None \<Rightarrow> Inl (KeyError ''name'')
           | Some (JStr nm) \<Rightarrow>
               (case basic_rows keyword rest of
                  Inl e \<Rightarrow> Inl e
                | Inr rows \<Rightarrow>
                    Inr (if contains (lower nm) (lower keyword)
                         then JObj [(''id'', JStr cid), (''name'', JStr nm)] # rows
                         else rows))
           | Some _ \<Rightarrow> Inl AttributeError)
      | _ \<Rightarrow> Inl TypeError)"

definition get_basic :: "detail_store \<Rightarrow> string \<Rightarrow> exn + response" where
  "get_basic D keyword =
     (case basic_rows keyword D of
        Inl e \<Rightarrow> Inl e
      | Inr rows \<Rightarrow> Inr (JSONResponse 200 (JObj [(''data'', JArr rows)])))"

subsection \<open>The application as a client sees it\<close>

text \<open>
  A client is a function from a request and the state of the service behind it to an
  outcome (a raised exception or a response) and the service's next state. This covers
  both an \<open>httpx.Client\<close> over the network, where the call can raise a transport
  error, and the \<open>TestClient\<close> of the test, which calls the application in process.
\<close>

type_synonym 's client = "request \<Rightarrow> 's \<Rightarrow> (exn + response) \<times> 's"

text \<open>
  Routing, as far as the requests of this program need it: the URL is split at \<open>?\<close>
  into path and query, the query at \<open>&\<close> and \<open>=\<close> (no percent decoding); a repeated
  parameter takes its last value, a repeated header its first; header names compare in
  lower case. An undeclared path is answered 404, a declared path under the other
  method 405, a request that fails validation 422 (the entries of its \<open>detail\<close> list
  carry the location only). Pydantic's coercions are not modelled: a field declared
  \<open>int\<close> takes a JSON integer, a field declared \<open>str\<close> a JSON string.
\<close>

fun split_on :: "char \<Rightarrow> string \<Rightarrow> string list" where
  "split_on c [] = [[]]"
| "split_on c (x # xs) =
     (if x = c then [] # split_on c xs
      else (case split_on c xs of [] \<Rightarrow> [[x]] | y # ys \<Rightarrow> (x # y) # ys))"

definition url_path :: "string \<Rightarrow> string" where
  "url_path u = takeWhile (\<lambda>c. c \<noteq> CHR ''?'') u"

definition url_query :: "string \<Rightarrow> (string \<times> string) list" where
  "url_query u =
     (let q = drop 1 (dropWhile (\<lambda>c. c \<noteq> CHR ''?'') u)
      in if q = [] then []
         else map (\<lambda>kv. (takeWhile (\<lambda>c. c \<noteq> CHR ''='') kv,
                          drop 1 (dropWhile (\<lambda>c. c \<noteq> CHR ''='') kv)))
                  (split_on CHR ''&'' q))"

definition query_param :: "request \<Rightarrow> string \<Rightarrow> string option" where
  "query_param req k = map_of (rev (url_query (url req))) k"

definition header :: "request \<Rightarrow> string \<Rightarrow> string option" where
  "header req k = map_of (map (\<lambda>kv. (lower (fst kv), snd kv)) (headers req)) k"

definition not_found :: response where
  "not_found = JSONResponse 404 (JObj [(''detail'', JStr ''Not Found'')])"

definition method_not_allowed :: response where
  "method_not_allowed = JSONResponse 405 (JObj [(''detail'', JStr ''Method Not Allowed'')])"

definition validation_error :: "string list \<Rightarrow> response" where
  "validation_error loc =
     JSONResponse 422 (JObj [(''detail'', JArr [JObj [(''loc'', JArr (map JStr loc))]])])"

definition parse_PayRequest :: "json option \<Rightarrow> string list + PayRequest" where
  "parse_PayRequest b =
     (case b of
        Some (JObj kvs) \<Rightarrow>
          (case map_of kvs ''tokenId'' of
             Some (JStr t) \<Rightarrow>
               (case map_of kvs ''amount'' of
                  Some (JInt a) \<Rightarrow> Inr \<lparr>tokenId = t, amount = a\<rparr>
                | _ \<Rightarrow> Inl [''body'', ''amount''])
           | _ \<Rightarrow> Inl [''body'', ''tokenId''])
      | _ \<Rightarrow> Inl [''body''])"

definition marketplace_app :: "detail_store client" where
  "marketplace_app req D =
     (let path = url_path (url req) in
      if path = ''/company/basic'' then
        (if req_method req = GET
         then (get_basic D (case query_param req ''keyword'' of None \<Rightarrow> [] | Some k \<Rightarrow> k), D)
         else (Inr method_not_allowed, D))
      else if path = ''/company/detail'' then
        (if req_method req = GET
         then (case query_param req ''id'' of
                 None \<Rightarrow> (Inr (validation_error [''query'', ''id'']), D)
               | Some rid \<Rightarrow> (Inr (get_detail D rid (header req ''x-payment-token'')), D))
         else (Inr method_not_allowed, D))
      else if path = ''/pay'' then
        (if req_method req = POST
         then (case parse_PayRequest (json_body req) of
                 Inl loc \<Rightarrow> (Inr (validation_error loc), D)
               | Inr p \<Rightarrow> (case pay D p of (r, D') \<Rightarrow> (Inr r, D')))
         else (Inr method_not_allowed, D))
      else (Inr not_found, D))"


section \<open>Identifiers: \<open>str(uuid.uuid4())\<close>\<close>

text \<open>
  \<open>uuid4()\<close> reads sixteen random bytes as a 128-bit number, forces the variant and
  version bits, and \<open>str\<close> prints the number as 32 hexadecimal digits in the groups
  8-4-4-4-12. The random bytes are an input \<open>r\<close> of the model.
\<close>

definition uuid4 :: "nat \<Rightarrow> int" where
  "uuid4 r =
     (let i0 = int r mod 2 ^ 128;
          i1 = i0 AND NOT (push_bit 48 0xc000);
          i2 = i1 OR push_bit 48 0x8000;
          i3 = i2 AND NOT (push_bit 64 0xf000)
      in i3 OR push_bit 76 4)"

definition hex32 :: "int \<Rightarrow> string" where
  "hex32 i = map (\<lambda>k. digit_char (nat ((i div 16 ^ (31 - k)) mod 16))) [0..<32]"

definition uuid_str :: "int \<Rightarrow> string" where
  "uuid_str i =
     (let h = hex32 i
      in take 8 h @ ''-'' @ take 4 (drop 8 h) @ ''-'' @ take 4 (drop 12 h) @ ''-''
         @ take 4 (drop 16 h) @ ''-'' @ drop 20 h)"

section \<open>Payment manager (the token service)\<close>

type_synonym token_store = "(string \<times> int) list"

record TokenRequest =
  token_budget :: int
  token_voice_id :: string

definition TokenResponse :: "string \<Rightarrow> int \<Rightarrow> json" where
  "TokenResponse token_id expire_in = JObj [(''token_id'', JStr token_id), (''expire_in'', JInt expire_in)]"

definition BalanceResponse :: "int \<Rightarrow> json" where
  "BalanceResponse balance = JObj [(''balance'', JInt balance)]"

text \<open>
  \<open>create_token\<close> stores the requested budget under a fresh identifier: \<open>r\<close> is the
  randomness its \<open>uuid4()\<close> call draws. No check of the budget precedes the store.
\<close>

definition create_token :: "nat \<Rightarrow> token_store \<Rightarrow> TokenRequest \<Rightarrow> response \<times> token_store" where
  "create_token r TOKENS req =
     (let token_id = uuid_str (uuid4 r)
      in (JSONResponse 200 (TokenResponse token_id 3600),
          AList.update token_id (token_budget req) TOKENS))"

definition get_balance :: "token_store \<Rightarrow> string \<Rightarrow> response \<times> token_store" where
  "get_balance TOKENS token_id =
     (let balance = (case map_of TOKENS token_id of None \<Rightarrow> 0 | Some b \<Rightarrow> b)
      in (JSONResponse 200 (BalanceResponse balance), TOKENS))"

text \<open>
  The state of the payment manager as a client sees it: the store \<open>TOKENS\<close> and the
  randomness still to be drawn, one number for each \<open>uuid4()\<close> call to come.
\<close>

record payment_state =
  TOKENS :: token_store
  entropy :: "nat \<Rightarrow> nat"

definition parse_TokenRequest :: "json option \<Rightarrow> string list + TokenRequest" where
  "parse_TokenRequest b =
     (case b of
        Some (JObj kvs) \<Rightarrow>
          (case map_of kvs ''budget'' of
             Some (JInt n) \<Rightarrow>
               (case map_of kvs ''voice_id'' of
                  Some (JStr v) \<Rightarrow> Inr \<lparr>token_budget = n, token_voice_id = v\<rparr>
                | _ \<Rightarrow> Inl [''body'', ''voice_id''])
           | _ \<Rightarrow> Inl [''body'', ''budget''])
      | _ \<Rightarrow> Inl [''body''])"

definition payment_app :: "payment_state client" where
  "payment_app req s =
     (let path = url_path (url req) in
      if path = ''/token'' then
        (if req_method req = POST
         then (case parse_TokenRequest (json_body req) of
                 Inl loc \<Rightarrow> (Inr (validation_error loc), s)
               | Inr t \<Rightarrow>
                   (case create_token (entropy s 0) (TOKENS s) t of
                      (r, T') \<Rightarrow> (Inr r, \<lparr>TOKENS = T', entropy = (\<lambda>n. entropy s (Suc n))\<rparr>)))
         else (Inr method_not_allowed, s))
      else if take 9 path = ''/balance/'' \<and> drop 9 path \<noteq> [] \<and> CHR ''/'' \<notin> set (drop 9 path) then
        (if req_method req = GET
         then (case get_balance (TOKENS s) (drop 9 path) of
                 (r, T') \<Rightarrow> (Inr r, s\<lparr>TOKENS := T'\<rparr>))
         else (Inr method_not_allowed, s))
      else (Inr not_found, s))"


section \<open>Agent orchestrator\<close>

text \<open>
  A task is the dict that \<open>req.dict()\<close> builds from a \<open>TaskRequest\<close>, to which the
  workflow later adds the key \<open>report\<close>. Its values are strings and integers.
\<close>

datatype pyval = PStr string | PInt int

type_synonym task = "(string \<times> pyval) list"
type_synonym task_store = "(string \<times> task) list"

record TaskRequest =
  theme :: string
  budget :: int
  voice_id :: string

definition dict :: "TaskRequest \<Rightarrow> task" where
  "dict req = [(''theme'', PStr (theme req)), (''budget'', PInt (budget req)),
               (''voice_id'', PStr (voice_id req))]"

definition TaskResponse :: "string \<Rightarrow> json" where
  "TaskResponse task_id = JObj [(''task_id'', JStr task_id)]"

text \<open>
  \<open>create_task\<close> stores the task and hands \<open>run_workflow(task_id)\<close> to the background
  queue: the second component of the result is the list of task ids so scheduled.
\<close>

definition create_task :: "nat \<Rightarrow> task_store \<Rightarrow> TaskRequest \<Rightarrow> response \<times> string list \<times> task_store" where
  "create_task r TASKS req =
     (let task_id = uuid_str (uuid4 r)
      in (JSONResponse 200 (TaskResponse task_id), [task_id],
          AList.update task_id (dict req) TASKS))"

definition py_str :: "pyval \<Rightarrow> string" where
  "py_str v = (case v of PStr s \<Rightarrow> s | PInt i \<Rightarrow> show_int i)"

definition to_json :: "pyval \<Rightarrow> json" where
  "to_json v = (case v of PStr s \<Rightarrow> JStr s | PInt i \<Rightarrow> JInt i)"

definition http_get :: "string \<Rightarrow> (string \<times> string) list \<Rightarrow> request" where
  "http_get u hs = \<lparr>req_method = GET, url = u, headers = hs, json_body = None\<rparr>"

definition http_post :: "string \<Rightarrow> json \<Rightarrow> request" where
  "http_post u j = \<lparr>req_method = POST, url = u, headers = [], json_body = Some j\<rparr>"

definition detail_path :: string where
  "detail_path = ''/company/detail?id=1''"

text \<open>The last line of \<open>run_workflow\<close>: \<open>TASKS[task_id]["report"] = f"## {theme}\n\n{r.text}"\<close>.\<close>

definition store_report :: "string \<Rightarrow> task \<Rightarrow> pyval \<Rightarrow> response \<Rightarrow> task_store \<Rightarrow> task_store" where
  "store_report task_id task theme_v r TASKS =
     AList.update task_id
       (AList.update ''report''
          (PStr (''## '' @ py_str theme_v @ [CHR 0x0A, CHR 0x0A] @ body_text r)) task)
       TASKS"

text \<open>
  \<open>run_workflow(task_id, marketplace_client, payment_client)\<close>. The state is the task
  store together with the states of the two services behind the clients; the result is
  the exception that leaves the function, if any, and the state reached. Each \<open>case\<close>
  follows one statement of the source:
  \<^item> \<open>if not task: return\<close> for an unknown id and for an empty dict;
  \<^item> \<open>task["theme"]\<close> and \<open>task["voice_id"]\<close> raise \<open>KeyError\<close> on a missing key;
  \<^item> each client call can raise;
  \<^item> \<open>r.json()\<close> raises on a body that is not JSON, \<open>.get\<close> exists on a dict only,
    and \<open>["token_id"]\<close> raises \<open>KeyError\<close> on a dict without the key and
    \<open>TypeError\<close> on any other value;
  \<^item> httpx refuses a header value that is not a string with \<open>TypeError\<close>.
  The budget of the task is not read anywhere, and no statement is under a \<open>try\<close>.
\<close>

definition run_workflow ::
  "string \<Rightarrow> 'm client \<Rightarrow> 'p client \<Rightarrow> task_store \<times> 'm \<times> 'p \<Rightarrow> exn option \<times> task_store \<times> 'm \<times> 'p" where
  "run_workflow task_id marketplace_client payment_client w =
     (case w of (TASKS, ms, ps) \<Rightarrow>
      (case map_of TASKS task_id of
         None \<Rightarrow> (None, w)
       | Some task \<Rightarrow>
         if task = [] then (None, w)
         else
         (case map_of task ''theme'' of
            None \<Rightarrow> (Some (KeyError ''theme''), w)
          | Some theme_v \<Rightarrow>
            (case marketplace_client (http_get detail_path []) ms of
               (Inl e, ms1) \<Rightarrow> (Some e, TASKS, ms1, ps)
             | (Inr r, ms1) \<Rightarrow>
               if status_code r = 402 then
                 (case body_json r of
                    None \<Rightarrow> (Some JSONDecodeError, TASKS, ms1, ps)
                  | Some (JObj kvs) \<Rightarrow>
                    (let price = (case map_of kvs ''price'' of None \<Rightarrow> JInt 0 | Some p \<Rightarrow> p) in
                     case map_of task ''voice_id'' of
                       None \<Rightarrow> (Some (KeyError ''voice_id''), TASKS, ms1, ps)
                     | Some voice_v \<Rightarrow>
                       (case payment_client
                               (http_post ''/token''
                                  (JObj [(''budget'', price), (''voice_id'', to_json voice_v)])) ps of
                          (Inl e, ps1) \<Rightarrow> (Some e, TASKS, ms1, ps1)
                        | (Inr token_resp, ps1) \<Rightarrow>
                          (case body_json token_resp of
                             None \<Rightarrow> (Some JSONDecodeError, TASKS, ms1, ps1)
                           | Some (JObj tkvs) \<Rightarrow>
                             (case map_of tkvs ''token_id'' of
                                None \<Rightarrow> (Some (KeyError ''token_id''), TASKS, ms1, ps1)
                              | Some token_id \<Rightarrow>
                                (case marketplace_client
                                        (http_post ''/pay''
                                           (JObj [(''tokenId'', token_id), (''amount'', price)])) ms1 of
                                   (Inl e, ms2) \<Rightarrow> (Some e, TASKS, ms2, ps1)
                                 | (Inr pay_resp, ms2) \<Rightarrow>
                                   (case token_id of
                                      JStr tok \<Rightarrow>
                                        (case marketplace_client
                                                (http_get detail_path [(''x-payment-token'', tok)]) ms2 of
                                           (Inl e, ms3) \<Rightarrow> (Some e, TASKS, ms3, ps1)
                                         | (Inr r2, ms3) \<Rightarrow>
                                             (None, store_report task_id task theme_v r2 TASKS, ms3, ps1))
                                    | _ \<Rightarrow> (Some TypeError, TASKS, ms2, ps1))))
                           | Some _ \<Rightarrow> (Some TypeError, TASKS, ms1, ps1))))
                  | Some _ \<Rightarrow> (Some AttributeError, TASKS, ms1, ps))
               else (None, store_report task_id task theme_v r TASKS, ms1, ps)))))"


section \<open>Observing and composing the services\<close>

text \<open>
  \<open>logged c\<close> behaves as the client \<open>c\<close> and keeps, in front of the state of \<open>c\<close>, the
  list of the requests sent so far with their outcomes, oldest first.
\<close>

definition logged :: "'s client \<Rightarrow> ((request \<times> (exn + response)) list \<times> 's) client" where
  "logged c req ls =
     (case ls of (log, s) \<Rightarrow>
        (case c req s of (res, s') \<Rightarrow> (res, log @ [(req, res)], s')))"

text \<open>A resource GET that carries a payment token.\<close>

definition token_get :: "request \<Rightarrow> bool" where
  "token_get req = (req_method req = GET \<and> header req ''x-payment-token'' \<noteq> None)"

text \<open>
  Two upstreams other than the mocks: a host that cannot be reached, on which every call
  raises a transport error, and a marketplace that honours no token (it answers as
  \<open>marketplace_app\<close> does to the same request without headers).
\<close>

definition unreachable :: "unit client" where
  "unreachable req u = (Inl (TransportError ''ConnectError''), u)"

definition refusing_marketplace :: "detail_store client" where
  "refusing_marketplace req D = marketplace_app (req\<lparr>headers := []\<rparr>) D"




section \<open>Facts about the model\<close>

lemma uuid_str_length: "length (uuid_str i) = 36"
  by (simp add: uuid_str_def hex32_def Let_def)

lemma uuid_str_nonempty: "uuid_str i \<noteq> []"
  using uuid_str_length [of i] by auto

lemma uuid4_zero: "uuid_str (uuid4 0) = ''00000000-0000-4000-8000-000000000000''"
  by code_simp

lemma uuid4_one: "uuid_str (uuid4 1) = ''00000000-0000-4000-8000-000000000001''"
  by code_simp

lemma url_path_detail: "url_path detail_path = ''/company/detail''"
  by (simp add: url_path_def detail_path_def)

lemma url_query_detail: "url_query detail_path = [(''id'', ''1'')]"
  by (simp add: url_query_def detail_path_def Let_def)

lemma query_param_detail: "query_param (http_get detail_path hs) ''id'' = Some ''1''"
  by (simp add: query_param_def http_get_def url_query_detail)

lemma lower_header_name: "lower ''x-payment-token'' = ''x-payment-token''"
  by (simp add: lower_def)

lemma app_probe: "marketplace_app (http_get detail_path []) D = (Inr (get_detail D ''1'' None), D)"
  by (simp add: marketplace_app_def Let_def query_param_detail)
     (simp add: http_get_def url_path_detail header_def)

lemma app_retry:
  "marketplace_app (http_get detail_path [(''x-payment-token'', tok)]) D
     = (Inr (get_detail D ''1'' (Some tok)), D)"
  by (simp add: marketplace_app_def Let_def query_param_detail)
     (simp add: http_get_def url_path_detail header_def lower_header_name)

lemma app_pay:
  "marketplace_app (http_post ''/pay'' (JObj [(''tokenId'', JStr t), (''amount'', JInt a)])) D
     = (Inr (JSONResponse 200 (JObj [(''success'', JBool True)])), D)"
  by (simp add: marketplace_app_def Let_def http_post_def url_path_def parse_PayRequest_def pay_def)

lemma app_token:
  "payment_app (http_post ''/token'' (JObj [(''budget'', JInt n), (''voice_id'', JStr v)])) s
     = (Inr (JSONResponse 200 (TokenResponse (uuid_str (uuid4 (entropy s 0))) 3600)),
        \<lparr>TOKENS = AList.update (uuid_str (uuid4 (entropy s 0))) n (TOKENS s),
         entropy = (\<lambda>k. entropy s (Suc k))\<rparr>)"
  by (simp add: payment_app_def Let_def http_post_def url_path_def parse_TokenRequest_def
        create_token_def)

lemma run_paid_path:
  assumes "map_of T tid = Some task" and "task \<noteq> []"
    and "map_of task ''theme'' = Some th" and "map_of task ''voice_id'' = Some vo"
    and "mc (http_get detail_path []) ms = (Inr r, ms1)"
    and "status_code r = 402" and "body_json r = Some (JObj kvs)"
    and "pc (http_post ''/token''
              (JObj [(''budget'', (case map_of kvs ''price'' of None \<Rightarrow> JInt 0 | Some p \<Rightarrow> p)),
                     (''voice_id'', to_json vo)])) ps = (Inr tr, ps1)"
    and "body_json tr = Some (JObj tkvs)" and "map_of tkvs ''token_id'' = Some (JStr tok)"
    and "mc (http_post ''/pay''
              (JObj [(''tokenId'', JStr tok),
                     (''amount'', (case map_of kvs ''price'' of None \<Rightarrow> JInt 0 | Some p \<Rightarrow> p))])) ms1
           = (Inr pr, ms2)"
    and "mc (http_get detail_path [(''x-payment-token'', tok)]) ms2 = (Inr r2, ms3)"
  shows "run_workflow tid mc pc (T, ms, ps) = (None, store_report tid task th r2 T, ms3, ps1)"
  using assms by (simp add: run_workflow_def Let_def)

lemma JSONResponse_sel:
  "status_code (JSONResponse c j) = c" "body_json (JSONResponse c j) = Some j"
  "body_text (JSONResponse c j) = dumps j"
  by (simp_all add: JSONResponse_def)

lemma probe_refused:
  "status_code (get_detail D rid None) = 402"
  "body_json (get_detail D rid None) = Some (JObj [(''detail'', JObj [(''price'', JInt 10)])])"
  by (simp_all add: get_detail_def HTTPException_def JSONResponse_def)

lemma run_reference:
  assumes "map_of T tid = Some task" and "task \<noteq> []"
    and "map_of task ''theme'' = Some th" and "map_of task ''voice_id'' = Some (PStr v)"
  shows "run_workflow tid marketplace_app payment_app (T, D, s)
         = (None,
            store_report tid task th (get_detail D ''1'' (Some (uuid_str (uuid4 (entropy s 0))))) T,
            D,
            \<lparr>TOKENS = AList.update (uuid_str (uuid4 (entropy s 0))) 0 (TOKENS s),
             entropy = (\<lambda>k. entropy s (Suc k))\<rparr>)"
  using assms
  by (simp add: run_workflow_def Let_def app_probe probe_refused to_json_def app_token
        JSONResponse_sel TokenResponse_def app_pay app_retry)


lemma update_values: "snd ` set (AList.update k v al) \<subseteq> insert v (snd ` set al)"
  by (induction al) auto

lemma map_of_update_same: "map_of (AList.update k v al) k = Some v"
  by (simp add: update_conv')


lemma marketplace_app_frame: "snd (marketplace_app req D) = D"
  by (simp add: marketplace_app_def Let_def pay_def get_basic_def split: sum.split option.split)


lemma dict_facts:
  "dict req \<noteq> []"
  "map_of (dict req) ''theme'' = Some (PStr (theme req))"
  "map_of (dict req) ''voice_id'' = Some (PStr (voice_id req))"
  "AList.update ''report'' v (dict req) = dict req @ [(''report'', v)]"
  by (simp_all add: dict_def)

lemma create_task_facts:
  "fst (snd (create_task r T req)) = [uuid_str (uuid4 r)]"
  "snd (snd (create_task r T req)) = AList.update (uuid_str (uuid4 r)) (dict req) T"
  "map_of (snd (snd (create_task r T req))) (uuid_str (uuid4 r)) = Some (dict req)"
  by (simp_all add: create_task_def Let_def map_of_update_same)

lemma update_update_same: "AList.update k v (AList.update k u al) = AList.update k v al"
  by (induction al) auto

lemma retry_granted:
  "tok \<noteq> [] \<Longrightarrow> get_detail D rid (Some tok) = JSONResponse 200 (case map_of D rid of None \<Rightarrow> JNull | Some d \<Rightarrow> d)"
  by (simp add: get_detail_def)

lemma run_created:
  "run_workflow (uuid_str (uuid4 r)) marketplace_app payment_app (snd (snd (create_task r T req)), D, s)
   = (None,
      AList.update (uuid_str (uuid4 r))
        (dict req @ [(''report'', PStr (''## '' @ theme req @ [CHR 0x0A, CHR 0x0A]
             @ dumps (case map_of D ''1'' of None \<Rightarrow> JNull | Some d \<Rightarrow> d)))])
        T,
      D,
      \<lparr>TOKENS = AList.update (uuid_str (uuid4 (entropy s 0))) 0 (TOKENS s),
       entropy = (\<lambda>k. entropy s (Suc k))\<rparr>)"
proof -
  note step = run_reference [OF create_task_facts(3) dict_facts(1) dict_facts(2) dict_facts(3),
      of r T req D s]
  show ?thesis
    unfolding step
    by (simp add: store_report_def dict_facts(4) py_str_def retry_granted uuid_str_nonempty
          JSONResponse_sel create_task_facts(2) update_update_same)
qed

lemma contains_self: "contains ys ys"
  by (cases ys) simp_all

lemma contains_suffix: "contains (xs @ ys) ys"
  by (induction xs) (simp_all add: contains_self)

lemma uuid4_Suc0: "uuid_str (uuid4 (Suc 0)) = ''00000000-0000-4000-8000-000000000001''"
  using uuid4_one by simp

lemma run_again:
  "run_workflow (uuid_str (uuid4 r)) marketplace_app payment_app
     (AList.update (uuid_str (uuid4 r)) (dict req @ [(''report'', PStr rep)]) T, D, s)
   = (None,
      AList.update (uuid_str (uuid4 r))
        (dict req @ [(''report'', PStr (''## '' @ theme req @ [CHR 0x0A, CHR 0x0A]
             @ dumps (case map_of D ''1'' of None \<Rightarrow> JNull | Some d \<Rightarrow> d)))])
        T,
      D,
      \<lparr>TOKENS = AList.update (uuid_str (uuid4 (entropy s 0))) 0 (TOKENS s),
       entropy = (\<lambda>k. entropy s (Suc k))\<rparr>)"
proof -
  let ?task = "dict req @ [(''report'', PStr rep)]"
  have a: "map_of (AList.update (uuid_str (uuid4 r)) ?task T) (uuid_str (uuid4 r)) = Some ?task"
    by (rule map_of_update_same)
  have b: "?task \<noteq> []" by simp
  have c: "map_of ?task ''theme'' = Some (PStr (theme req))" by (simp add: dict_def)
  have d: "map_of ?task ''voice_id'' = Some (PStr (voice_id req))" by (simp add: dict_def)
  note step = run_reference [OF a b c d, of D s]
  show ?thesis
    unfolding step
    by (simp add: store_report_def py_str_def retry_granted uuid_str_nonempty
          JSONResponse_sel update_update_same dict_def)
qed

lemma logged_token:
  "logged payment_app (http_post ''/token'' (JObj [(''budget'', JInt n), (''voice_id'', JStr v)])) (log, s)
     = (Inr (JSONResponse 200 (TokenResponse (uuid_str (uuid4 (entropy s 0))) 3600)),
        log @ [(http_post ''/token'' (JObj [(''budget'', JInt n), (''voice_id'', JStr v)]),
                Inr (JSONResponse 200 (TokenResponse (uuid_str (uuid4 (entropy s 0))) 3600)))],
        \<lparr>TOKENS = AList.update (uuid_str (uuid4 (entropy s 0))) n (TOKENS s),
         entropy = (\<lambda>k. entropy s (Suc k))\<rparr>)"
  by (simp add: logged_def app_token)

lemma run_failure_keeps_tasks:
  "run_workflow tid mc pc (T, ms, ps) = (Some e, T', ms', ps') \<Longrightarrow> T' = T"
  by (auto simp add: run_workflow_def Let_def
        split: option.splits if_splits prod.splits sum.splits json.splits)

lemma run_probe_raises:
  assumes "map_of T tid = Some task" and "task \<noteq> []" and "map_of task ''theme'' = Some th"
    and "mc (http_get detail_path []) ms = (Inl e, ms1)"
  shows "run_workflow tid mc pc (T, ms, ps) = (Some e, T, ms1, ps)"
  using assms by (simp add: run_workflow_def)

lemma run_unknown_task: "map_of T tid = None \<Longrightarrow> run_workflow tid mc pc (T, ms, ps) = (None, T, ms, ps)"
  by (simp add: run_workflow_def)

lemma token_get_probe: "\<not> token_get (http_get detail_path [])"
  by (simp add: token_get_def http_get_def header_def)

lemma token_get_post: "\<not> token_get (http_post u j)"
  by (simp add: token_get_def http_post_def)

lemma token_get_retry: "token_get (http_get detail_path [(''x-payment-token'', tok)])"
  by (simp add: token_get_def http_get_def header_def lower_header_name)

lemma http_post_sel: "req_method (http_post u j) = POST" "url (http_post u j) = u"
  by (simp_all add: http_post_def)

lemma refusing_get:
  "refusing_marketplace (http_get detail_path hs) D = (Inr (get_detail D ''1'' None), D)"
proof -
  have "(http_get detail_path hs)\<lparr>headers := []\<rparr> = http_get detail_path []"
    by (simp add: http_get_def)
  then show ?thesis by (simp add: refusing_marketplace_def app_probe)
qed

lemma refusing_pay:
  "refusing_marketplace (http_post ''/pay'' (JObj [(''tokenId'', JStr t), (''amount'', JInt a)])) D
     = (Inr (JSONResponse 200 (JObj [(''success'', JBool True)])), D)"
proof -
  have "(http_post ''/pay'' (JObj [(''tokenId'', JStr t), (''amount'', JInt a)]))\<lparr>headers := []\<rparr>
          = http_post ''/pay'' (JObj [(''tokenId'', JStr t), (''amount'', JInt a)])"
    by (simp add: http_post_def)
  then show ?thesis by (simp add: refusing_marketplace_def app_pay)
qed

lemma refused_body: "body_text (get_detail D rid None) = dumps (JObj [(''detail'', JObj [(''price'', JInt 10)])])"
  by (simp add: get_detail_def HTTPException_def JSONResponse_def)

lemma run_empty_task: "map_of T tid = Some [] \<Longrightarrow> run_workflow tid mc pc (T, ms, ps) = (None, T, ms, ps)"
  by (simp add: run_workflow_def)

lemma run_no_theme:
  assumes "map_of T tid = Some task" and "task \<noteq> []"
    and "map_of task ''theme'' = None"
  shows "run_workflow tid mc pc (T, ms, ps) = (Some (KeyError ''theme''), T, ms, ps)"
  using assms by (simp add: run_workflow_def Let_def)

lemma run_probe_not_json:
  assumes "map_of T tid = Some task" and "task \<noteq> []" and "map_of task ''theme'' = Some th"
    and "mc (http_get detail_path []) ms = (Inr r, ms1)" and "status_code r = 402"
    and "body_json r = None"
  shows "run_workflow tid mc pc (T, ms, ps) = (Some JSONDecodeError, T, ms1, ps)"
  using assms by (simp add: run_workflow_def Let_def)

lemma run_probe_not_dict:
  assumes "map_of T tid = Some task" and "task \<noteq> []" and "map_of task ''theme'' = Some th"
    and "mc (http_get detail_path []) ms = (Inr r, ms1)" and "status_code r = 402"
    and "body_json r = Some j"
    and "\<forall>kvs. j \<noteq> JObj kvs"
  shows "run_workflow tid mc pc (T, ms, ps) = (Some AttributeError, T, ms1, ps)"
  using assms by (cases j; simp add: run_workflow_def Let_def)

lemma run_no_voice:
  assumes "map_of T tid = Some task" and "task \<noteq> []" and "map_of task ''theme'' = Some th"
    and "mc (http_get detail_path []) ms = (Inr r, ms1)" and "status_code r = 402"
    and "body_json r = Some (JObj kvs)"
    and "map_of task ''voice_id'' = None"
  shows "run_workflow tid mc pc (T, ms, ps) = (Some (KeyError ''voice_id''), T, ms1, ps)"
  using assms by (simp add: run_workflow_def Let_def)

lemma run_token_raises:
  assumes "map_of T tid = Some task" and "task \<noteq> []" and "map_of task ''theme'' = Some th"
    and "mc (http_get detail_path []) ms = (Inr r, ms1)" and "status_code r = 402"
    and "body_json r = Some (JObj kvs)" and "map_of task ''voice_id'' = Some vo"
    and "pc (http_post ''/token'' (JObj [(''budget'', (case map_of kvs ''price'' of None \<Rightarrow> JInt 0 | Some p \<Rightarrow> p)), (''voice_id'', to_json vo)])) ps = (Inl e, ps1)"
  shows "run_workflow tid mc pc (T, ms, ps) = (Some e, T, ms1, ps1)"
  using assms by (simp add: run_workflow_def Let_def)

lemma run_token_not_json:
  assumes "map_of T tid = Some task" and "task \<noteq> []" and "map_of task ''theme'' = Some th"
    and "mc (http_get detail_path []) ms = (Inr r, ms1)" and "status_code r = 402"
    and "body_json r = Some (JObj kvs)" and "map_of task ''voice_id'' = Some vo"
    and "pc (http_post ''/token'' (JObj [(''budget'', (case map_of kvs ''price'' of None \<Rightarrow> JInt 0 | Some p \<Rightarrow> p)), (''voice_id'', to_json vo)])) ps = (Inr tr, ps1)"
    and "body_json tr = None"
  shows "run_workflow tid mc pc (T, ms, ps) = (Some JSONDecodeError, T, ms1, ps1)"
  using assms by (simp add: run_workflow_def Let_def)

lemma run_token_not_dict:
  assumes "map_of T tid = Some task" and "task \<noteq> []" and "map_of task ''theme'' = Some th"
    and "mc (http_get detail_path []) ms = (Inr r, ms1)" and "status_code r = 402"
    and "body_json r = Some (JObj kvs)" and "map_of task ''voice_id'' = Some vo"
    and "pc (http_post ''/token'' (JObj [(''budget'', (case map_of kvs ''price'' of None \<Rightarrow> JInt 0 | Some p \<Rightarrow> p)), (''voice_id'', to_json vo)])) ps = (Inr tr, ps1)"
    and "body_json tr = Some j"
    and "\<forall>tkvs. j \<noteq> JObj tkvs"
  shows "run_workflow tid mc pc (T, ms, ps) = (Some TypeError, T, ms1, ps1)"
  using assms by (cases j; simp add: run_workflow_def Let_def)

lemma run_no_token_id:
  assumes "map_of T tid = Some task" and "task \<noteq> []" and "map_of task ''theme'' = Some th"
    and "mc (http_get detail_path []) ms = (Inr r, ms1)" and "status_code r = 402"
    and "body_json r = Some (JObj kvs)" and "map_of task ''voice_id'' = Some vo"
    and "pc (http_post ''/token'' (JObj [(''budget'', (case map_of kvs ''price'' of None \<Rightarrow> JInt 0 | Some p \<Rightarrow> p)), (''voice_id'', to_json vo)])) ps = (Inr tr, ps1)"
    and "body_json tr = Some (JObj tkvs)"
    and "map_of tkvs ''token_id'' = None"
  shows "run_workflow tid mc pc (T, ms, ps) = (Some (KeyError ''token_id''), T, ms1, ps1)"
  using assms by (simp add: run_workflow_def Let_def)

lemma run_pay_raises:
  assumes "map_of T tid = Some task" and "task \<noteq> []" and "map_of task ''theme'' = Some th"
    and "mc (http_get detail_path []) ms = (Inr r, ms1)" and "status_code r = 402"
    and "body_json r = Some (JObj kvs)" and "map_of task ''voice_id'' = Some vo"
    and "pc (http_post ''/token'' (JObj [(''budget'', (case map_of kvs ''price'' of None \<Rightarrow> JInt 0 | Some p \<Rightarrow> p)), (''voice_id'', to_json vo)])) ps = (Inr tr, ps1)"
    and "body_json tr = Some (JObj tkvs)" and "map_of tkvs ''token_id'' = Some token_id"
    and "mc (http_post ''/pay'' (JObj [(''tokenId'', token_id), (''amount'', (case map_of kvs ''price'' of None \<Rightarrow> JInt 0 | Some p \<Rightarrow> p))])) ms1 = (Inl e, ms2)"
  shows "run_workflow tid mc pc (T, ms, ps) = (Some e, T, ms2, ps1)"
  using assms by (simp add: run_workflow_def Let_def)

lemma run_token_not_str:
  assumes "map_of T tid = Some task" and "task \<noteq> []" and "map_of task ''theme'' = Some th"
    and "mc (http_get detail_path []) ms = (Inr r, ms1)" and "status_code r = 402"
    and "body_json r = Some (JObj kvs)" and "map_of task ''voice_id'' = Some vo"
    and "pc (http_post ''/token'' (JObj [(''budget'', (case map_of kvs ''price'' of None \<Rightarrow> JInt 0 | Some p \<Rightarrow> p)), (''voice_id'', to_json vo)])) ps = (Inr tr, ps1)"
    and "body_json tr = Some (JObj tkvs)" and "map_of tkvs ''token_id'' = Some token_id"
    and "mc (http_post ''/pay'' (JObj [(''tokenId'', token_id), (''amount'', (case map_of kvs ''price'' of None \<Rightarrow> JInt 0 | Some p \<Rightarrow> p))])) ms1 = (Inr pr, ms2)"
    and "\<forall>tok. token_id \<noteq> JStr tok"
  shows "run_workflow tid mc pc (T, ms, ps) = (Some TypeError, T, ms2, ps1)"
  using assms by (cases token_id; simp add: run_workflow_def Let_def)

lemma run_retry_raises:
  assumes "map_of T tid = Some task" and "task \<noteq> []" and "map_of task ''theme'' = Some th"
    and "mc (http_get detail_path []) ms = (Inr r, ms1)" and "status_code r = 402"
    and "body_json r = Some (JObj kvs)" and "map_of task ''voice_id'' = Some vo"
    and "pc (http_post ''/token'' (JObj [(''budget'', (case map_of kvs ''price'' of None \<Rightarrow> JInt 0 | Some p \<Rightarrow> p)), (''voice_id'', to_json vo)])) ps = (Inr tr, ps1)"
    and "body_json tr = Some (JObj tkvs)" and "map_of tkvs ''token_id'' = Some (JStr tok)"
    and "mc (http_post ''/pay'' (JObj [(''tokenId'', JStr tok), (''amount'', (case map_of kvs ''price'' of None \<Rightarrow> JInt 0 | Some p \<Rightarrow> p))])) ms1 = (Inr pr, ms2)"
    and "mc (http_get detail_path [(''x-payment-token'', tok)]) ms2 = (Inl e, ms3)"
  shows "run_workflow tid mc pc (T, ms, ps) = (Some e, T, ms3, ps1)"
  using assms by (simp add: run_workflow_def Let_def)

lemmas run_failures = run_unknown_task run_empty_task run_no_theme run_probe_raises run_probe_not_json run_probe_not_dict run_no_voice run_token_raises run_token_not_json run_token_not_dict run_no_token_id run_pay_raises run_token_not_str run_retry_raises

section \<open>The claims\<close>

text \<open>
  C9. For every known resource id and every non-empty value of the payment header, whether
  or not the payment manager ever issued that token and whether or not a settlement was
  ever made for it, the resource GET answers 200 with the full resource record.
\<close>

theorem get_detail_any_token:
  assumes "tok \<noteq> []" and "map_of D rid = Some rec"
  shows "get_detail D rid (Some tok) = JSONResponse 200 rec
         \<and> status_code (get_detail D rid (Some tok)) = 200
         \<and> body_json (get_detail D rid (Some tok)) = Some rec"
  using assms by (simp add: get_detail_def JSONResponse_def)

text \<open>C9, at the marketplace's own store, the id \<open>1\<close> and a token that was never issued.\<close>

theorem get_detail_any_token_witness:
  "''never-issued'' \<noteq> [] \<and> map_of DETAIL ''1'' = Some (JObj [(''id'', JStr ''1''), (''name'', JStr ''ACME Corp''), (''description'', JStr ''A company'')])
   \<and> body_json (get_detail DETAIL ''1'' (Some ''never-issued''))
       = Some (JObj [(''id'', JStr ''1''), (''name'', JStr ''ACME Corp''), (''description'', JStr ''A company'')])"
proof -
  have a: "''never-issued'' \<noteq> []" by simp
  have b: "map_of DETAIL ''1'' = Some (JObj [(''id'', JStr ''1''), (''name'', JStr ''ACME Corp''), (''description'', JStr ''A company'')])"
    by (simp add: DETAIL_def)
  from get_detail_any_token [OF a b] a b show ?thesis by blast
qed


text \<open>
  C4, as stated, fails: \<open>pay\<close> looks at neither the amount nor the token. A settlement
  of amount \<open>-5\<close> and one of amount \<open>0\<close> are both answered 200 with
  \<open>{"success": true}\<close>.
\<close>

theorem pay_accepts_nonpositive:
  "status_code (fst (pay DETAIL \<lparr>tokenId = ''t'', amount = - 5\<rparr>)) = 200
   \<and> body_json (fst (pay DETAIL \<lparr>tokenId = ''t'', amount = - 5\<rparr>)) = Some (JObj [(''success'', JBool True)])
   \<and> body_json (fst (pay DETAIL \<lparr>tokenId = ''t'', amount = 0\<rparr>)) = Some (JObj [(''success'', JBool True)])"
  by (simp add: pay_def JSONResponse_sel)

text \<open>
  C4, amended. \<open>pay\<close> validates nothing: every settlement request that is well-typed
  (a string token id and an integer amount, positive or not) is answered 200 with
  \<open>{"success": true}\<close>, and no request at all changes the marketplace's store.
\<close>

theorem pay_accepts_every_amount:
  "pay D req = (JSONResponse 200 (JObj [(''success'', JBool True)]), D)
   \<and> marketplace_app (http_post ''/pay'' (JObj [(''tokenId'', JStr t), (''amount'', JInt a)])) D
       = (Inr (JSONResponse 200 (JObj [(''success'', JBool True)])), D)
   \<and> snd (marketplace_app rq D) = D"
  by (simp add: pay_def app_pay marketplace_app_frame)

text \<open>C4, amended, at a token that was never issued and the amount \<open>-5\<close>.\<close>

theorem pay_accepts_every_amount_witness:
  "marketplace_app (http_post ''/pay'' (JObj [(''tokenId'', JStr ''never-issued''), (''amount'', JInt (- 5))])) DETAIL
       = (Inr (JSONResponse 200 (JObj [(''success'', JBool True)])), DETAIL)"
  using pay_accepts_every_amount [of DETAIL "\<lparr>tokenId = ''never-issued'', amount = - 5\<rparr>" "''never-issued''" "- 5"]
  by blast

text \<open>
  C5, as stated, fails: a token requested with budget \<open>-1\<close> is issued (status 200, no
  \<open>InvalidBudget\<close>), the store holds the balance \<open>-1\<close> for it, and the balance lookup
  returns \<open>-1\<close>.
\<close>

theorem create_token_negative_budget:
  "status_code (fst (create_token 0 [] \<lparr>token_budget = - 1, token_voice_id = ''v1''\<rparr>)) = 200
   \<and> snd (create_token 0 [] \<lparr>token_budget = - 1, token_voice_id = ''v1''\<rparr>)
       = [(''00000000-0000-4000-8000-000000000000'', - 1)]
   \<and> body_json (fst (get_balance [(''00000000-0000-4000-8000-000000000000'', - 1)]
                          ''00000000-0000-4000-8000-000000000000''))
       = Some (JObj [(''balance'', JInt (- 1))])"
  by (simp add: create_token_def Let_def JSONResponse_sel uuid4_zero get_balance_def BalanceResponse_def)

text \<open>
  C5, amended. \<open>create_token\<close> accepts every integer budget and stores exactly that
  budget as the balance of the new token, which the balance lookup then returns; the
  balance lookup leaves the store as it is; and the balances in the store are all
  non-negative after an issuance provided they were before and the requested budget is
  non-negative.
\<close>

theorem create_token_stores_budget:
  "status_code (fst (create_token r T req)) = 200
   \<and> map_of (snd (create_token r T req)) (uuid_str (uuid4 r)) = Some (token_budget req)
   \<and> body_json (fst (get_balance (snd (create_token r T req)) (uuid_str (uuid4 r))))
       = Some (BalanceResponse (token_budget req))
   \<and> snd (get_balance T t) = T
   \<and> ((\<forall>b \<in> snd ` set T. 0 \<le> b) \<and> 0 \<le> token_budget req
        \<longrightarrow> (\<forall>b \<in> snd ` set (snd (create_token r T req)). 0 \<le> b))"
proof -
  have stored: "snd (create_token r T req) = AList.update (uuid_str (uuid4 r)) (token_budget req) T"
    by (simp add: create_token_def Let_def)
  have a: "status_code (fst (create_token r T req)) = 200"
    by (simp add: create_token_def Let_def JSONResponse_sel)
  have b: "map_of (snd (create_token r T req)) (uuid_str (uuid4 r)) = Some (token_budget req)"
    by (simp add: stored map_of_update_same)
  have c: "body_json (fst (get_balance (snd (create_token r T req)) (uuid_str (uuid4 r))))
             = Some (BalanceResponse (token_budget req))"
    by (simp add: get_balance_def Let_def JSONResponse_sel b)
  have d: "snd (get_balance T t) = T"
    by (simp add: get_balance_def Let_def)
  have e: "(\<forall>b \<in> snd ` set T. 0 \<le> b) \<and> 0 \<le> token_budget req
        \<longrightarrow> (\<forall>b \<in> snd ` set (snd (create_token r T req)). 0 \<le> b)"
  proof (intro impI ballI)
    fix b
    assume h: "(\<forall>b \<in> snd ` set T. 0 \<le> b) \<and> 0 \<le> token_budget req"
      and m: "b \<in> snd ` set (snd (create_token r T req))"
    from m have "b \<in> snd ` set (AList.update (uuid_str (uuid4 r)) (token_budget req) T)"
      by (simp only: stored)
    with update_values have "b \<in> insert (token_budget req) (snd ` set T)"
      by (rule subsetD)
    then have "b = token_budget req \<or> b \<in> snd ` set T" by simp
    with h show "0 \<le> b" by auto
  qed
  show ?thesis by (rule conjI [OF a conjI [OF b conjI [OF c conjI [OF d e]]]])
qed

text \<open>C5, amended, at a store with one token of balance 3 and a requested budget of 5.\<close>

theorem create_token_stores_budget_witness:
  "list_all (\<lambda>b. 0 \<le> b) (map snd [(''a'', 3::int)])
   \<and> 0 \<le> token_budget \<lparr>token_budget = 5, token_voice_id = ''v1''\<rparr>
   \<and> list_all (\<lambda>b. 0 \<le> b)
        (map snd (snd (create_token 0 [(''a'', 3)] \<lparr>token_budget = 5, token_voice_id = ''v1''\<rparr>)))
   \<and> map_of (snd (create_token 0 [(''a'', 3)] \<lparr>token_budget = 5, token_voice_id = ''v1''\<rparr>))
        (uuid_str (uuid4 0)) = Some 5"
proof -
  have h: "(\<forall>b \<in> snd ` set [(''a'', 3::int)]. 0 \<le> b)
           \<and> 0 \<le> token_budget \<lparr>token_budget = 5, token_voice_id = ''v1''\<rparr>" by simp
  note w = create_token_stores_budget
    [of 0 "[(''a'', 3)]" "\<lparr>token_budget = 5, token_voice_id = ''v1''\<rparr>" "''a''"]
  note imp = w [THEN conjunct2, THEN conjunct2, THEN conjunct2, THEN conjunct2]
  have stored: "map_of (snd (create_token 0 [(''a'', 3)] \<lparr>token_budget = 5, token_voice_id = ''v1''\<rparr>))
        (uuid_str (uuid4 0)) = Some 5"
    using w [THEN conjunct2, THEN conjunct1] by simp
  have a: "list_all (\<lambda>b. 0 \<le> b) (map snd [(''a'', 3::int)])" by simp
  have b: "0 \<le> token_budget \<lparr>token_budget = 5, token_voice_id = ''v1''\<rparr>" by simp
  have c: "list_all (\<lambda>b. 0 \<le> b)
        (map snd (snd (create_token 0 [(''a'', 3)] \<lparr>token_budget = 5, token_voice_id = ''v1''\<rparr>)))"
    using mp [OF imp h] by (simp only: list_all_iff set_map)
  show ?thesis by (rule conjI [OF a conjI [OF b conjI [OF c stored]]])
qed




text \<open>
  C1, as stated, fails: the workflow never reads the task's budget. A task submitted with
  budget 5, below the price 10 that the marketplace names in its refusal, runs to the end
  without any failure; the payment manager's store, empty before, holds a token
  afterwards; and the task record gains a report and nothing else.
\<close>

theorem under_budget_counterexample:
  "budget \<lparr>theme = ''test'', budget = 5, voice_id = ''v1''\<rparr> < 10
   \<and> (let out = run_workflow ''00000000-0000-4000-8000-000000000001'' marketplace_app payment_app
                      (snd (snd (create_task 1 [] \<lparr>theme = ''test'', budget = 5, voice_id = ''v1''\<rparr>)),
                       DETAIL, \<lparr>TOKENS = [], entropy = (\<lambda>_. 0)\<rparr>)
          in fst out = None
             \<and> TOKENS (snd (snd (snd out))) = [(''00000000-0000-4000-8000-000000000000'', 0)]
             \<and> map_of (fst (snd out)) ''00000000-0000-4000-8000-000000000001''
                 = Some [(''theme'', PStr ''test''), (''budget'', PInt 5), (''voice_id'', PStr ''v1''),
                         (''report'', PStr (''## test'' @ [CHR 0x0A, CHR 0x0A]
                            @ dumps (JObj [(''id'', JStr ''1''), (''name'', JStr ''ACME Corp''),
                                           (''description'', JStr ''A company'')])))])"
proof -
  note run = run_created [of 1 "[]" "\<lparr>theme = ''test'', budget = 5, voice_id = ''v1''\<rparr>" DETAIL
      "\<lparr>TOKENS = [], entropy = (\<lambda>_. 0)\<rparr>", unfolded uuid4_one]
  show ?thesis
    unfolding Let_def run
    by (simp add: uuid4_zero dict_def DETAIL_def)
qed

text \<open>
  C1, amended. For every task whose budget is below the price named in the refusal, the
  workflow against the two mocks ends without raising; one token is issued (the payment
  manager's store gains the key of the identifier drawn for it); and the task record is
  the submitted dict with a report added, with no status and no failure reason.
\<close>

theorem under_budget_still_pays:
  assumes "budget req < 10"
  shows "(let out = run_workflow (uuid_str (uuid4 r)) marketplace_app payment_app
                      (snd (snd (create_task r T req)), D, s)
          in fst out = None
             \<and> fst ` set (TOKENS (snd (snd (snd out))))
                 = {uuid_str (uuid4 (entropy s 0))} \<union> fst ` set (TOKENS s)
             \<and> (\<exists>rep. map_of (fst (snd out)) (uuid_str (uuid4 r))
                        = Some (dict req @ [(''report'', PStr rep)])))"
  by (simp add: run_created Let_def dom_update map_of_update_same)

text \<open>C1, amended, at a task of budget 5.\<close>

theorem under_budget_still_pays_witness:
  "budget \<lparr>theme = ''test'', budget = 5, voice_id = ''v1''\<rparr> < 10
   \<and> (let out = run_workflow (uuid_str (uuid4 1)) marketplace_app payment_app
                      (snd (snd (create_task 1 [] \<lparr>theme = ''test'', budget = 5, voice_id = ''v1''\<rparr>)),
                       DETAIL, \<lparr>TOKENS = [], entropy = (\<lambda>_. 0)\<rparr>)
          in fst out = None
             \<and> fst ` set (TOKENS (snd (snd (snd out))))
                 = {uuid_str (uuid4 (entropy \<lparr>TOKENS = [], entropy = (\<lambda>_. 0)\<rparr> 0))}
                   \<union> fst ` set (TOKENS \<lparr>TOKENS = [], entropy = (\<lambda>_. 0)\<rparr>)
             \<and> (\<exists>rep. map_of (fst (snd out)) (uuid_str (uuid4 1))
                        = Some (dict \<lparr>theme = ''test'', budget = 5, voice_id = ''v1''\<rparr> @ [(''report'', PStr rep)])))"
proof -
  have h: "budget \<lparr>theme = ''test'', budget = 5, voice_id = ''v1''\<rparr> < 10" by simp
  show ?thesis
    by (rule conjI [OF h under_budget_still_pays [OF h]])
qed

text \<open>
  C2, as stated, fails on its first half: there is no status. After the run of a task
  with budget 50 the task record has exactly the keys \<open>theme\<close>, \<open>budget\<close>,
  \<open>voice_id\<close> and \<open>report\<close>, and no key \<open>status\<close>.
\<close>

theorem no_status_counterexample:
  "10 \<le> budget \<lparr>theme = ''test'', budget = 50, voice_id = ''v1''\<rparr>
   \<and> (let out = run_workflow ''00000000-0000-4000-8000-000000000001'' marketplace_app payment_app
                      (snd (snd (create_task 1 [] \<lparr>theme = ''test'', budget = 50, voice_id = ''v1''\<rparr>)),
                       DETAIL, \<lparr>TOKENS = [], entropy = (\<lambda>_. 0)\<rparr>)
          in fst out = None
             \<and> (case map_of (fst (snd out)) ''00000000-0000-4000-8000-000000000001'' of
                   None \<Rightarrow> False
                 | Some t \<Rightarrow> map fst t = [''theme'', ''budget'', ''voice_id'', ''report'']
                             \<and> map_of t ''status'' = None))"
proof -
  note run = run_created [of 1 "[]" "\<lparr>theme = ''test'', budget = 50, voice_id = ''v1''\<rparr>" DETAIL
      "\<lparr>TOKENS = [], entropy = (\<lambda>_. 0)\<rparr>", unfolded uuid4_one]
  show ?thesis
    unfolding Let_def run
    by (simp add: dict_def)
qed

text \<open>
  C2, amended. For every task whose budget is at least the price named in the refusal and
  every record stored under the resource id \<open>1\<close>, the workflow against the two mocks
  ends without raising, and the task record is the submitted dict with a report added
  that consists of the heading \<open>## theme\<close>, an empty line and the JSON text of the
  record, so the report contains the content of the fetched resource. No status is
  recorded.
\<close>

theorem report_holds_resource:
  assumes "10 \<le> budget req" and "map_of D ''1'' = Some rec"
  shows "(let out = run_workflow (uuid_str (uuid4 r)) marketplace_app payment_app
                      (snd (snd (create_task r T req)), D, s)
          in fst out = None
             \<and> map_of (fst (snd out)) (uuid_str (uuid4 r))
                 = Some (dict req @ [(''report'',
                      PStr (''## '' @ theme req @ [CHR 0x0A, CHR 0x0A] @ dumps rec))])
             \<and> contains (''## '' @ theme req @ [CHR 0x0A, CHR 0x0A] @ dumps rec) (dumps rec))"
proof -
  have c: "contains ((''## '' @ theme req @ [CHR 0x0A, CHR 0x0A]) @ dumps rec) (dumps rec)"
    by (rule contains_suffix)
  show ?thesis
    using c by (simp add: run_created Let_def map_of_update_same assms(2))
qed

text \<open>C2, amended, at a task of budget 50 and the marketplace's own store.\<close>

theorem report_holds_resource_witness:
  "10 \<le> budget \<lparr>theme = ''test'', budget = 50, voice_id = ''v1''\<rparr>
   \<and> map_of DETAIL ''1'' = Some (JObj [(''id'', JStr ''1''), (''name'', JStr ''ACME Corp''), (''description'', JStr ''A company'')])
   \<and> (let out = run_workflow (uuid_str (uuid4 1)) marketplace_app payment_app
                      (snd (snd (create_task 1 [] \<lparr>theme = ''test'', budget = 50, voice_id = ''v1''\<rparr>)),
                       DETAIL, \<lparr>TOKENS = [], entropy = (\<lambda>_. 0)\<rparr>)
          in fst out = None
             \<and> map_of (fst (snd out)) (uuid_str (uuid4 1))
                 = Some (dict \<lparr>theme = ''test'', budget = 50, voice_id = ''v1''\<rparr> @ [(''report'',
                      PStr (''## '' @ theme \<lparr>theme = ''test'', budget = 50, voice_id = ''v1''\<rparr> @ [CHR 0x0A, CHR 0x0A]
                            @ dumps (JObj [(''id'', JStr ''1''), (''name'', JStr ''ACME Corp''), (''description'', JStr ''A company'')])))])
             \<and> contains (''## '' @ theme \<lparr>theme = ''test'', budget = 50, voice_id = ''v1''\<rparr> @ [CHR 0x0A, CHR 0x0A]
                            @ dumps (JObj [(''id'', JStr ''1''), (''name'', JStr ''ACME Corp''), (''description'', JStr ''A company'')]))
                   (dumps (JObj [(''id'', JStr ''1''), (''name'', JStr ''ACME Corp''), (''description'', JStr ''A company'')])))"
proof -
  have h: "10 \<le> budget \<lparr>theme = ''test'', budget = 50, voice_id = ''v1''\<rparr>" by simp
  have d: "map_of DETAIL ''1'' = Some (JObj [(''id'', JStr ''1''), (''name'', JStr ''ACME Corp''), (''description'', JStr ''A company'')])"
    by (simp add: DETAIL_def)
  show ?thesis
    by (rule conjI [OF h conjI [OF d report_holds_resource [OF h d]]])
qed

text \<open>
  C3, as stated, fails: the workflow has no guard on a task that was already run. A
  second run for a task that holds its report issues a second token: the payment
  manager's store holds one token after the first run and two after the second.
\<close>

theorem rerun_counterexample:
  "(let tid = ''00000000-0000-4000-8000-000000000001'';
        w1 = snd (run_workflow tid marketplace_app payment_app
                    (snd (snd (create_task 1 [] \<lparr>theme = ''test'', budget = 50, voice_id = ''v1''\<rparr>)),
                     DETAIL, \<lparr>TOKENS = [], entropy = (\<lambda>n. n)\<rparr>));
        w2 = snd (run_workflow tid marketplace_app payment_app w1)
    in (case map_of (fst w1) tid of None \<Rightarrow> False | Some t \<Rightarrow> map_of t ''report'' \<noteq> None)
       \<and> TOKENS (snd (snd w1)) = [(''00000000-0000-4000-8000-000000000000'', 0)]
       \<and> TOKENS (snd (snd w2)) = [(''00000000-0000-4000-8000-000000000000'', 0),
                                    (''00000000-0000-4000-8000-000000000001'', 0)])"
proof -
  note run1 = run_created [of 1 "[]" "\<lparr>theme = ''test'', budget = 50, voice_id = ''v1''\<rparr>" DETAIL
      "\<lparr>TOKENS = [], entropy = (\<lambda>n. n)\<rparr>", unfolded uuid4_one]
  note run2 = run_again [of 1 "\<lparr>theme = ''test'', budget = 50, voice_id = ''v1''\<rparr>" _ "[]" DETAIL, unfolded uuid4_one]
  show ?thesis
    unfolding Let_def run1 snd_conv fst_conv run2
    by (simp add: uuid4_zero uuid4_Suc0 dict_def)
qed

text \<open>
  C3, amended. A second run of the workflow for a task that the first run completed ends
  without raising and leaves the task store, hence the stored report, as the first run
  left it (the same report is written again); it is not a no-op, since it issues one
  further token.
\<close>

theorem rerun_issues_second_token:
  "(let tid = uuid_str (uuid4 r);
        w1 = snd (run_workflow tid marketplace_app payment_app (snd (snd (create_task r T req)), D, s));
        out2 = run_workflow tid marketplace_app payment_app w1
    in (\<exists>rep. map_of (fst w1) tid = Some (dict req @ [(''report'', PStr rep)]))
       \<and> fst out2 = None
       \<and> fst (snd out2) = fst w1
       \<and> fst ` set (TOKENS (snd (snd (snd out2))))
           = {uuid_str (uuid4 (entropy s 1))} \<union> fst ` set (TOKENS (snd (snd w1))))"
  by (simp add: Let_def run_created run_again map_of_update_same dom_update insert_commute)

text \<open>C3, amended, at a task of budget 50 run twice against the marketplace's own store.\<close>

theorem rerun_issues_second_token_witness:
  "(let tid = uuid_str (uuid4 1);
        w1 = snd (run_workflow tid marketplace_app payment_app
                    (snd (snd (create_task 1 [] \<lparr>theme = ''test'', budget = 50, voice_id = ''v1''\<rparr>)),
                     DETAIL, \<lparr>TOKENS = [], entropy = (\<lambda>n. n)\<rparr>));
        out2 = run_workflow tid marketplace_app payment_app w1
    in (\<exists>rep. map_of (fst w1) tid
                = Some (dict \<lparr>theme = ''test'', budget = 50, voice_id = ''v1''\<rparr> @ [(''report'', PStr rep)]))
       \<and> fst out2 = None
       \<and> fst (snd out2) = fst w1
       \<and> fst ` set (TOKENS (snd (snd (snd out2))))
           = {uuid_str (uuid4 (entropy \<lparr>TOKENS = [], entropy = (\<lambda>n. n)\<rparr> 1))}
             \<union> fst ` set (TOKENS (snd (snd w1))))"
  by (rule rerun_issues_second_token)

text \<open>
  C7 at the request the workflow sends for a task \<open>{theme: test, budget: 50, voice_id: v1}\<close>.
  The refusal has status 402, but its body is \<open>{"detail": {"price": 10}}\<close>: the price
  sits under \<open>detail\<close>, and the top-level key \<open>price\<close> that the workflow reads is
  absent, so the workflow falls back to 0 and the one request it sends to the payment
  manager asks for a token of budget 0, not 10.
\<close>

theorem price_read_at_wrong_level:
  "status_code (get_detail DETAIL ''1'' None) = 402
   \<and> body_json (get_detail DETAIL ''1'' None) = Some (JObj [(''detail'', JObj [(''price'', JInt 10)])])
   \<and> map_of [(''detail'', JObj [(''price'', JInt 10)])] ''price'' = None
   \<and> map fst (fst (snd (snd (snd
        (run_workflow ''00000000-0000-4000-8000-000000000001'' marketplace_app (logged payment_app)
           (snd (snd (create_task 1 [] \<lparr>theme = ''test'', budget = 50, voice_id = ''v1''\<rparr>)),
            DETAIL, [], \<lparr>TOKENS = [], entropy = (\<lambda>_. 0)\<rparr>))))))
       = [http_post ''/token'' (JObj [(''budget'', JInt 0), (''voice_id'', JStr ''v1'')])]"
  by (simp add: probe_refused run_workflow_def Let_def create_task_facts uuid4_one uuid4_Suc0 map_of_update_same
        dict_facts app_probe to_json_def logged_token JSONResponse_sel TokenResponse_def app_pay
        app_retry)


text \<open>
  C6, as stated, fails on its first half. Against a marketplace that honours no token,
  the retrieval retried with the token is refused with 402 again; the workflow neither
  fails nor records \<open>PaymentNotHonored\<close>: it ends without raising and stores the body
  of the refusal as the task's report.
\<close>

theorem refused_retry_counterexample:
  "status_code (get_detail DETAIL ''1'' None) = 402
   \<and> refusing_marketplace
        (http_get detail_path [(''x-payment-token'', ''00000000-0000-4000-8000-000000000000'')]) DETAIL
       = (Inr (get_detail DETAIL ''1'' None), DETAIL)
   \<and> (let out = run_workflow ''00000000-0000-4000-8000-000000000001'' refusing_marketplace payment_app
                (snd (snd (create_task 1 [] \<lparr>theme = ''test'', budget = 50, voice_id = ''v1''\<rparr>)), DETAIL,
                 \<lparr>TOKENS = [], entropy = (\<lambda>_. 0)\<rparr>)
       in fst out = None
          \<and> map_of (fst (snd out)) ''00000000-0000-4000-8000-000000000001''
              = Some [(''theme'', PStr ''test''), (''budget'', PInt 50), (''voice_id'', PStr ''v1''),
                      (''report'', PStr (''## test'' @ [CHR 0x0A, CHR 0x0A]
                          @ dumps (JObj [(''detail'', JObj [(''price'', JInt 10)])])))])"
  by (simp add: probe_refused refusing_get run_workflow_def Let_def create_task_facts uuid4_one
        uuid4_Suc0 uuid4_zero map_of_update_same dict_facts to_json_def app_token JSONResponse_sel
        TokenResponse_def refusing_pay store_report_def py_str_def refused_body dict_def)

text \<open>
  C6, amended. For every marketplace and payment manager behind the two clients and every
  run of the workflow, at most one resource GET carrying a token is sent; when one is
  sent it is the third and last request to the marketplace and follows the settlement
  POST to \<open>/pay\<close>; and whatever response it receives, a refusal included, the run ends
  without raising and stores that response's body as the report. There is no further
  retry and no failure state.
\<close>

theorem single_token_get:
  "(case run_workflow tid (logged mc) pc (T, ([], ms), ps) of
      (res, T', (log, ms'), ps') \<Rightarrow>
        length (filter (\<lambda>ent. token_get (fst ent)) log) \<le> 1
        \<and> (\<forall>req r. (req, r) \<in> set log \<and> token_get req
              \<longrightarrow> length log = 3 \<and> log ! 2 = (req, r) \<and> req_method (fst (log ! 1)) = POST
                  \<and> url (fst (log ! 1)) = ''/pay'')
        \<and> (\<forall>req r2. (req, Inr r2) \<in> set log \<and> token_get req
              \<longrightarrow> res = None
                  \<and> (\<exists>task th. map_of T tid = Some task \<and> map_of task ''theme'' = Some th
                        \<and> T' = store_report tid task th r2 T)))"
  by (auto simp add: run_workflow_def logged_def Let_def token_get_probe token_get_post
        token_get_retry http_post_sel
        split: option.splits if_splits prod.splits sum.splits json.splits)

text \<open>C6, amended, at a task of budget 50 and the marketplace that honours no token.\<close>

theorem single_token_get_witness:
  "(case run_workflow (uuid_str (uuid4 1)) (logged refusing_marketplace) payment_app
           (snd (snd (create_task 1 [] \<lparr>theme = ''test'', budget = 50, voice_id = ''v1''\<rparr>)),
            ([], DETAIL), \<lparr>TOKENS = [], entropy = (\<lambda>_. 0)\<rparr>) of
      (res, T', (log, ms'), ps') \<Rightarrow>
        length (filter (\<lambda>ent. token_get (fst ent)) log) \<le> 1
        \<and> (\<forall>req r. (req, r) \<in> set log \<and> token_get req
              \<longrightarrow> length log = 3 \<and> log ! 2 = (req, r) \<and> req_method (fst (log ! 1)) = POST
                  \<and> url (fst (log ! 1)) = ''/pay'')
        \<and> (\<forall>req r2. (req, Inr r2) \<in> set log \<and> token_get req
              \<longrightarrow> res = None
                  \<and> (\<exists>task th. map_of (snd (snd (create_task 1 [] \<lparr>theme = ''test'', budget = 50, voice_id = ''v1''\<rparr>)))
                                    (uuid_str (uuid4 1)) = Some task
                        \<and> map_of task ''theme'' = Some th
                        \<and> T' = store_report (uuid_str (uuid4 1)) task th r2
                                  (snd (snd (create_task 1 [] \<lparr>theme = ''test'', budget = 50, voice_id = ''v1''\<rparr>))))))"
  by (rule single_token_get)

text \<open>
  C8, as stated, fails: nothing in \<open>run_workflow\<close> catches an exception. With a
  marketplace that cannot be reached, the transport error of the first call leaves
  \<open>run_workflow\<close>, and the task record is as submitted, with no reason recorded on it.
\<close>

theorem unreachable_upstream_escapes:
  "(let out = run_workflow ''00000000-0000-4000-8000-000000000001'' unreachable payment_app
                (snd (snd (create_task 1 [] \<lparr>theme = ''test'', budget = 50, voice_id = ''v1''\<rparr>)), (),
                 \<lparr>TOKENS = [], entropy = (\<lambda>_. 0)\<rparr>)
    in fst out = Some (TransportError ''ConnectError'')
       \<and> map_of (fst (snd out)) ''00000000-0000-4000-8000-000000000001''
           = Some [(''theme'', PStr ''test''), (''budget'', PInt 50), (''voice_id'', PStr ''v1'')])"
proof -
  have run: "run_workflow ''00000000-0000-4000-8000-000000000001'' unreachable payment_app
                (snd (snd (create_task 1 [] \<lparr>theme = ''test'', budget = 50, voice_id = ''v1''\<rparr>)), (),
                 \<lparr>TOKENS = [], entropy = (\<lambda>_. 0)\<rparr>)
       = (Some (TransportError ''ConnectError''),
          snd (snd (create_task 1 [] \<lparr>theme = ''test'', budget = 50, voice_id = ''v1''\<rparr>)), (),
          \<lparr>TOKENS = [], entropy = (\<lambda>_. 0)\<rparr>)"
    by (rule run_probe_raises [OF create_task_facts(3) [of 1, unfolded uuid4_one] dict_facts(1) dict_facts(2)])
       (simp add: unreachable_def)
  show ?thesis
    unfolding Let_def run
    using create_task_facts(3) [of 1 "[]" "\<lparr>theme = ''test'', budget = 50, voice_id = ''v1''\<rparr>", unfolded uuid4_one]
    by (simp add: dict_def)
qed


text \<open>
  C8, amended. \<open>run_workflow\<close> handles no failure. Whenever a run ends in an exception
  the task store is exactly as before the run, so nothing is recorded on the task, and
  the exception is the outcome of \<open>run_workflow\<close> itself. This holds at every point
  where the run can fail: a missing \<open>theme\<close> or \<open>voice_id\<close> in the task; an exception
  raised by the first GET, by the POST to \<open>/token\<close>, by the POST to \<open>/pay\<close> or by the
  GET that carries the token; a 402 body that is not JSON or not a dict; a token response
  that is not JSON, not a dict or without \<open>token_id\<close>; and a token id that is not a
  string. The only guarded cases are an unknown task id and an empty task, on which the
  run returns at once and changes nothing.
\<close>

theorem failures_escape_unrecorded:
  "(run_workflow tid mc pc (T, ms, ps) = (Some e0, T', ms', ps') \<longrightarrow>
    T' = T)
   \<and> (map_of T tid = None \<longrightarrow>
    run_workflow tid mc pc (T, ms, ps) = (None, T, ms, ps))
   \<and> (map_of T tid = Some [] \<longrightarrow>
    run_workflow tid mc pc (T, ms, ps) = (None, T, ms, ps))
   \<and> (\<forall>task. ((map_of T tid = Some task
      \<and> task \<noteq> []) \<longrightarrow>
     ((map_of task ''theme'' = None \<longrightarrow>
       run_workflow tid mc pc (T, ms, ps) = (Some (KeyError ''theme''), T, ms, ps))
      \<and> (\<forall>th. (map_of task ''theme'' = Some th \<longrightarrow>
        ((\<forall>e ms1. (mc (http_get detail_path []) ms = (Inl e, ms1) \<longrightarrow>
           run_workflow tid mc pc (T, ms, ps) = (Some e, T, ms1, ps)))
         \<and> (\<forall>r ms1. ((mc (http_get detail_path []) ms = (Inr r, ms1)
            \<and> status_code r = 402) \<longrightarrow>
           ((body_json r = None \<longrightarrow>
             run_workflow tid mc pc (T, ms, ps) = (Some JSONDecodeError, T, ms1, ps))
            \<and> (\<forall>j. ((body_json r = Some j
               \<and> (\<forall>kvs. j \<noteq> JObj kvs)) \<longrightarrow>
              run_workflow tid mc pc (T, ms, ps) = (Some AttributeError, T, ms1, ps)))
            \<and> (\<forall>kvs price. ((body_json r = Some (JObj kvs)
               \<and> price = (case map_of kvs ''price'' of None \<Rightarrow> JInt 0 | Some p \<Rightarrow> p)) \<longrightarrow>
              ((map_of task ''voice_id'' = None \<longrightarrow>
                run_workflow tid mc pc (T, ms, ps) = (Some (KeyError ''voice_id''), T, ms1, ps))
               \<and> (\<forall>vo. (map_of task ''voice_id'' = Some vo \<longrightarrow>
                 ((\<forall>e ps1. (pc (http_post ''/token'' (JObj [(''budget'', price), (''voice_id'', to_json vo)])) ps = (Inl e, ps1) \<longrightarrow>
                    run_workflow tid mc pc (T, ms, ps) = (Some e, T, ms1, ps1)))
                  \<and> (\<forall>tr ps1. (pc (http_post ''/token'' (JObj [(''budget'', price), (''voice_id'', to_json vo)])) ps = (Inr tr, ps1) \<longrightarrow>
                    ((body_json tr = None \<longrightarrow>
                      run_workflow tid mc pc (T, ms, ps) = (Some JSONDecodeError, T, ms1, ps1))
                     \<and> (\<forall>j. ((body_json tr = Some j
                        \<and> (\<forall>tkvs. j \<noteq> JObj tkvs)) \<longrightarrow>
                       run_workflow tid mc pc (T, ms, ps) = (Some TypeError, T, ms1, ps1)))
                     \<and> (\<forall>tkvs. (body_json tr = Some (JObj tkvs) \<longrightarrow>
                       ((map_of tkvs ''token_id'' = None \<longrightarrow>
                         run_workflow tid mc pc (T, ms, ps) = (Some (KeyError ''token_id''), T, ms1, ps1))
                        \<and> (\<forall>token_id. (map_of tkvs ''token_id'' = Some token_id \<longrightarrow>
                          ((\<forall>e ms2. (mc (http_post ''/pay'' (JObj [(''tokenId'', token_id), (''amount'', price)])) ms1 = (Inl e, ms2) \<longrightarrow>
                             run_workflow tid mc pc (T, ms, ps) = (Some e, T, ms2, ps1)))
                           \<and> (\<forall>pr ms2. (mc (http_post ''/pay'' (JObj [(''tokenId'', token_id), (''amount'', price)])) ms1 = (Inr pr, ms2) \<longrightarrow>
                             (((\<forall>tok. token_id \<noteq> JStr tok) \<longrightarrow>
                               run_workflow tid mc pc (T, ms, ps) = (Some TypeError, T, ms2, ps1))
                              \<and> (\<forall>tok e ms3. ((token_id = JStr tok
                                 \<and> mc (http_get detail_path [(''x-payment-token'', tok)]) ms2 = (Inl e, ms3)) \<longrightarrow>
                                run_workflow tid mc pc (T, ms, ps) = (Some e, T, ms3, ps1))))))))))))))))))))))))))))))"
  apply (intro conjI allI impI)
  subgoal by (rule run_failure_keeps_tasks)
  apply ((elim conjE)?, hypsubst?, (rule run_failures; assumption)[1])+
  done

text \<open>
  C8, amended, at a task of budget 50, the marketplace mock and a payment manager that
  cannot be reached: the transport error of the POST to \<open>/token\<close> leaves
  \<open>run_workflow\<close>.
\<close>

theorem failures_escape_unrecorded_witness:
  "(map_of (snd (snd (create_task 1 [] \<lparr>theme = ''test'', budget = 50, voice_id = ''v1''\<rparr>))) (uuid_str (uuid4 1)) = Some (dict \<lparr>theme = ''test'', budget = 50, voice_id = ''v1''\<rparr>) \<and> dict \<lparr>theme = ''test'', budget = 50, voice_id = ''v1''\<rparr> \<noteq> [])
   \<and> map_of (dict \<lparr>theme = ''test'', budget = 50, voice_id = ''v1''\<rparr>) ''theme'' = Some (PStr ''test'')
   \<and> (marketplace_app (http_get detail_path []) DETAIL = (Inr (get_detail DETAIL ''1'' None), DETAIL) \<and> status_code (get_detail DETAIL ''1'' None) = 402)
   \<and> (body_json (get_detail DETAIL ''1'' None) = Some (JObj [(''detail'', JObj [(''price'', JInt 10)])]) \<and> JInt 0 = (case map_of [(''detail'', JObj [(''price'', JInt 10)])] ''price'' of None \<Rightarrow> JInt 0 | Some p \<Rightarrow> p))
   \<and> map_of (dict \<lparr>theme = ''test'', budget = 50, voice_id = ''v1''\<rparr>) ''voice_id'' = Some (PStr ''v1'')
   \<and> unreachable (http_post ''/token'' (JObj [(''budget'', JInt 0), (''voice_id'', to_json (PStr ''v1''))])) () = (Inl (TransportError ''ConnectError''), ())
   \<and> run_workflow (uuid_str (uuid4 1)) marketplace_app unreachable ((snd (snd (create_task 1 [] \<lparr>theme = ''test'', budget = 50, voice_id = ''v1''\<rparr>))), DETAIL, ()) = (Some (TransportError ''ConnectError''), (snd (snd (create_task 1 [] \<lparr>theme = ''test'', budget = 50, voice_id = ''v1''\<rparr>))), DETAIL, ())"
proof -
  have hA: "map_of (snd (snd (create_task 1 [] \<lparr>theme = ''test'', budget = 50, voice_id = ''v1''\<rparr>))) (uuid_str (uuid4 1)) = Some (dict \<lparr>theme = ''test'', budget = 50, voice_id = ''v1''\<rparr>) \<and> dict \<lparr>theme = ''test'', budget = 50, voice_id = ''v1''\<rparr> \<noteq> []"
    by (simp add: create_task_facts dict_facts)
  have hB: "map_of (dict \<lparr>theme = ''test'', budget = 50, voice_id = ''v1''\<rparr>) ''theme'' = Some (PStr ''test'')"
    by (simp add: dict_facts)
  have hC: "marketplace_app (http_get detail_path []) DETAIL = (Inr (get_detail DETAIL ''1'' None), DETAIL) \<and> status_code (get_detail DETAIL ''1'' None) = 402"
    by (simp add: app_probe probe_refused)
  have hD: "body_json (get_detail DETAIL ''1'' None) = Some (JObj [(''detail'', JObj [(''price'', JInt 10)])]) \<and> JInt 0 = (case map_of [(''detail'', JObj [(''price'', JInt 10)])] ''price'' of None \<Rightarrow> JInt 0 | Some p \<Rightarrow> p)"
    by (simp add: probe_refused)
  have hE: "map_of (dict \<lparr>theme = ''test'', budget = 50, voice_id = ''v1''\<rparr>) ''voice_id'' = Some (PStr ''v1'')"
    by (simp add: dict_facts)
  have hF: "unreachable (http_post ''/token'' (JObj [(''budget'', JInt 0), (''voice_id'', to_json (PStr ''v1''))])) () = (Inl (TransportError ''ConnectError''), ())"
    by (simp add: unreachable_def)
  note w = failures_escape_unrecorded [where tid = "uuid_str (uuid4 1)" and mc = marketplace_app
      and pc = unreachable and T = "(snd (snd (create_task 1 [] \<lparr>theme = ''test'', budget = 50, voice_id = ''v1''\<rparr>)))" and ms = DETAIL and ps = "()"]
  note a = w [THEN conjunct2, THEN conjunct2, THEN conjunct2, THEN spec, THEN mp, OF hA]
  note b = a [THEN conjunct2, THEN spec, THEN mp, OF hB]
  note c = b [THEN conjunct2, THEN spec, THEN spec, THEN mp, OF hC]
  note d = c [THEN conjunct2, THEN conjunct2, THEN spec, THEN spec, THEN mp, OF hD]
  note e = d [THEN conjunct2, THEN spec, THEN mp, OF hE]
  note f = e [THEN conjunct1, THEN spec, THEN spec, THEN mp, OF hF]
  show ?thesis
    by (rule conjI [OF hA conjI [OF hB conjI [OF hC conjI [OF hD conjI [OF hE conjI [OF hF f]]]]]])
qed

end
